theory Spec2Isabelle
  imports Main "HOL-Library.Product_Lexorder"
begin

section \<open>JavaScript string primitives used by the plugin\<close>

text \<open>
  A line of the document is a \<open>string\<close>: a list of code units. The model covers the
  code units \<open>0\<close> to \<open>255\<close>; in that range the characters JavaScript's \<open>\s\<close> and
  \<open>String.prototype.trim\<close> treat as white space are the ones below (TAB, LF, VT, FF, CR,
  SPACE and NBSP).
\<close>

definition isWhiteSpace :: "char \<Rightarrow> bool" where
  "isWhiteSpace c =
     (c \<in> {CHR 0x09, CHR 0x0A, CHR 0x0B, CHR 0x0C, CHR 0x0D, CHR 0x20, CHR 0xA0})"

text \<open>The characters the regular expression atom \<open>.\<close> does not match.\<close>

definition isLineTerminator :: "char \<Rightarrow> bool" where
  "isLineTerminator c = (c = CHR 0x0A \<or> c = CHR 0x0D)"

text \<open>\<open>s.trim()\<close>\<close>

definition trim :: "string \<Rightarrow> string" where
  "trim s = rev (dropWhile isWhiteSpace (rev (dropWhile isWhiteSpace s)))"

text \<open>\<open>s.startsWith(p)\<close>\<close>

definition startsWith :: "string \<Rightarrow> string \<Rightarrow> bool" where
  "startsWith s p = (take (length p) s = p)"

text \<open>
  \<open>s.indexOf(p)\<close>: the position of the first occurrence of \<open>p\<close> in \<open>s\<close>, and \<open>-1\<close> when
  there is none. The third argument counts the code units already passed.
\<close>

fun indexOfFrom :: "string \<Rightarrow> string \<Rightarrow> int \<Rightarrow> int" where
  "indexOfFrom [] p i = (if p = [] then i else - 1)"
| "indexOfFrom (c # cs) p i =
     (if startsWith (c # cs) p then i else indexOfFrom cs p (i + 1))"

definition indexOf :: "string \<Rightarrow> string \<Rightarrow> int" where
  "indexOf s p = indexOfFrom s p 0"

text \<open>
  \<open>content.match(/\[\[(.+?)\]\]/)\<close>, reduced to its capture group. \<open>lazyInner\<close> is the
  lazy \<open>.+?\<close> after its first character: it stops at the first \<open>]]\<close> and fails on a line
  terminator or at the end of the text. \<open>linkAt\<close> tries the match at the head of the
  text, \<open>linkMatch\<close> at each position from the left, as the regular expression engine does.
\<close>

fun lazyInner :: "string \<Rightarrow> string \<Rightarrow> string option" where
  "lazyInner acc [] = None"
| "lazyInner acc (c # cs) =
     (if startsWith (c # cs) '']]'' then Some (rev acc)
      else if isLineTerminator c then None
      else lazyInner (c # acc) cs)"

definition linkAt :: "string \<Rightarrow> string option" where
  "linkAt s =
     (if startsWith s ''[['' then
        (case drop 2 s of
           [] \<Rightarrow> None
         | c # cs \<Rightarrow> if isLineTerminator c then None else lazyInner [c] cs)
      else None)"

fun linkMatch :: "string \<Rightarrow> string option" where
  "linkMatch [] = None"
| "linkMatch (c # cs) =
     (case linkAt (c # cs) of Some g \<Rightarrow> Some g | None \<Rightarrow> linkMatch cs)"

text \<open>\<open>s.split(sep)[0]\<close> for a one-character separator.\<close>

definition splitFirst :: "string \<Rightarrow> char \<Rightarrow> string" where
  "splitFirst s sep = takeWhile (\<lambda>c. c \<noteq> sep) s"

section \<open>The date library\<close>

text \<open>
  The plugin parses and formats through moment.js, which is not part of the repository.
  The functions below take the three calls the plugin makes as a record of functions:
  \<^item> \<open>parseStrict text pattern\<close> is \<open>moment(text, pattern, true)\<close>: the parsed value
    when it is valid, \<open>None\<close> otherwise;
  \<^item> \<open>isValid text pattern\<close> is \<open>moment(text, pattern).isValid()\<close>, the forgiving parse;
  \<^item> \<open>format pattern\<close> is \<open>moment().format(pattern)\<close>, \<open>None\<close> when the call throws.
  Parsed values are compared with \<open>isAfter\<close>, the strict order \<open>>\<close> of the value type.
\<close>

record 'd moment =
  parseStrict :: "string \<Rightarrow> string \<Rightarrow> 'd option"
  isValid :: "string \<Rightarrow> string \<Rightarrow> bool"
  format :: "string \<Rightarrow> string option"

section \<open>Settings and plugin state\<close>

record TimelogSettings =
  replacementInterval :: int
  useList :: bool
  logFormat :: string
  debounceMs :: int

definition DEFAULT_SETTINGS :: TimelogSettings where
  "DEFAULT_SETTINGS =
     \<lparr>replacementInterval = 30, useList = False, logFormat = ''HH:mm'', debounceMs = 500\<rparr>"

definition DEFAULT_HEADER_FORMAT :: string where
  "DEFAULT_HEADER_FORMAT = ''YYYY-MM-DD''"

text \<open>\<open>lastReplacement\<close> is the optional \<open>Date\<close>, as its \<open>getTime()\<close> in milliseconds.\<close>

record TimelogPlugin =
  settings :: TimelogSettings
  dailyNoteFormat :: string
  lastReplacement :: "int option"

section \<open>The editor\<close>

record position =
  line :: nat
  ch :: nat

text \<open>
  The host editor, as far as the plugin uses it: the lines of the document, the cursor
  and the position last scrolled into view.
\<close>

record editor =
  lines :: "string list"
  cursor :: position
  scrolledTo :: "position option"

definition lineCount :: "editor \<Rightarrow> nat" where
  "lineCount e = length (lines e)"

text \<open>\<open>editor.getLine(n)\<close>; \<open>None\<close> stands for the failure of a read outside the document.\<close>

definition getLine :: "editor \<Rightarrow> nat \<Rightarrow> string option" where
  "getLine e n = (if n < length (lines e) then Some (lines e ! n) else None)"

definition getCursor :: "editor \<Rightarrow> position" where
  "getCursor e = cursor e"

definition setCursor :: "position \<Rightarrow> editor \<Rightarrow> editor" where
  "setCursor p e = e\<lparr>cursor := p\<rparr>"

definition scrollIntoView :: "position \<Rightarrow> position \<Rightarrow> bool \<Rightarrow> editor \<Rightarrow> editor" where
  "scrollIntoView from to center e = e\<lparr>scrolledTo := Some from\<rparr>"

text \<open>
  The lines a text breaks into: at each line feed, at each carriage return, and once at
  a carriage return followed by a line feed.
\<close>

fun splitLines :: "string \<Rightarrow> string list" where
  "splitLines [] = [[]]"
| "splitLines [c] = (if c = CHR 0x0A \<or> c = CHR 0x0D then [[], []] else [[c]])"
| "splitLines (c # c' # cs) =
     (if c = CHR 0x0D \<and> c' = CHR 0x0A then [] # splitLines cs
      else if c = CHR 0x0A \<or> c = CHR 0x0D then [] # splitLines (c' # cs)
      else (case splitLines (c' # cs) of
              [] \<Rightarrow> [[c]]
            | l # ls \<Rightarrow> (c # l) # ls))"

text \<open>
  The lines that replace a line when the pieces \<open>ts\<close> of an inserted text go between
  its part \<open>pre\<close> before the insertion point and its part \<open>post\<close> after it.
\<close>

fun spliceLines :: "string \<Rightarrow> string list \<Rightarrow> string \<Rightarrow> string list" where
  "spliceLines pre [] post = [pre @ post]"
| "spliceLines pre [t] post = [pre @ t @ post]"
| "spliceLines pre (t # t' # ts) post = (pre @ t) # butlast (t' # ts) @ [last (t' # ts) @ post]"

text \<open>
  \<open>editor.replaceRange(text, pos)\<close> with no end position: \<open>text\<close> is inserted at \<open>pos\<close>,
  a column past the end of the line meaning the end of the line. Both callers pass a
  line they have just read, and both set the cursor themselves afterwards; a line
  outside the document leaves the document as it is.
\<close>

definition replaceRange :: "string \<Rightarrow> position \<Rightarrow> editor \<Rightarrow> editor" where
  "replaceRange text p e =
     (if line p < length (lines e) then
        (let l = lines e ! line p in
         e\<lparr>lines := take (line p) (lines e)
                     @ spliceLines (take (ch p) l) (splitLines text) (drop (ch p) l)
                     @ drop (Suc (line p)) (lines e)\<rparr>)
      else e)"

section \<open>Headers\<close>

text \<open>\<open>extractHeaderDate\<close> (main.ts, lines 163 to 176).\<close>

definition extractHeaderDate :: "'d moment \<Rightarrow> TimelogPlugin \<Rightarrow> string \<Rightarrow> 'd option" where
  "extractHeaderDate M P text =
     (let trimmed = trim text in
      if \<not> startsWith trimmed ''#'' then None
      else
        (let content = trim (dropWhile isWhiteSpace (dropWhile (\<lambda>c. c = CHR ''#'') trimmed));
             linkContent = (case linkMatch content of Some g \<Rightarrow> g | None \<Rightarrow> content);
             dateText = splitFirst linkContent CHR ''|''
         in parseStrict M dateText (dailyNoteFormat P)))"

definition isLogHeader :: "'d moment \<Rightarrow> TimelogPlugin \<Rightarrow> string \<Rightarrow> bool" where
  "isLogHeader M P text = (extractHeaderDate M P text \<noteq> None)"

definition isNormalHeader :: "string \<Rightarrow> bool" where
  "isNormalHeader text = startsWith text ''#''"

text \<open>
  \<open>findLatestDatedHeader\<close> (lines 143 to 161). The loop visits the lines in order with
  their numbers; its state is \<open>latestLine\<close> and \<open>latestDate\<close>.
\<close>

fun latestLoop ::
  "'d::linorder moment \<Rightarrow> TimelogPlugin \<Rightarrow> string list \<Rightarrow> nat \<Rightarrow> nat option \<Rightarrow> 'd option
    \<Rightarrow> nat option" where
  "latestLoop M P [] lineNumber latestLine latestDate = latestLine"
| "latestLoop M P (text # rest) lineNumber latestLine latestDate =
     (case extractHeaderDate M P text of
        None \<Rightarrow> latestLoop M P rest (Suc lineNumber) latestLine latestDate
      | Some parsed \<Rightarrow>
          (if (case latestDate of None \<Rightarrow> True | Some d \<Rightarrow> parsed > d)
           then latestLoop M P rest (Suc lineNumber) (Some lineNumber) (Some parsed)
           else latestLoop M P rest (Suc lineNumber) latestLine latestDate))"

definition findLatestDatedHeader :: "'d::linorder moment \<Rightarrow> TimelogPlugin \<Rightarrow> editor \<Rightarrow> nat option" where
  "findLatestDatedHeader M P e = latestLoop M P (lines e) 0 None None"

section \<open>Detection\<close>

text \<open>\<open>isWithinInterval\<close> (lines 258 to 269); \<open>now\<close> is \<open>new Date().getTime()\<close>.\<close>

definition isWithinInterval :: "TimelogPlugin \<Rightarrow> int \<Rightarrow> bool" where
  "isWithinInterval P now =
     (let interval = replacementInterval (settings P) in
      case lastReplacement P of
        None \<Rightarrow> True
      | Some t \<Rightarrow> if now - t < interval * 1000 then False else True)"

text \<open>
  \<open>isLoggedLine\<close> (lines 279 to 289). \<open>/^[-\s]/g\<close> is anchored at the start of the line
  and has no repetition: it removes one leading character, when that character is a
  hyphen or white space.
\<close>

definition stripLeading :: "string \<Rightarrow> string" where
  "stripLeading s =
     (case s of
        [] \<Rightarrow> []
      | c # cs \<Rightarrow> if c = CHR ''-'' \<or> isWhiteSpace c then cs else c # cs)"

definition loggedPrefix :: "string \<Rightarrow> string \<Rightarrow> string" where
  "loggedPrefix fmt text =
     take (length fmt) (filter (\<lambda>c. c \<noteq> CHR ''*'') (stripLeading text))"

definition isLoggedLine :: "'d moment \<Rightarrow> TimelogPlugin \<Rightarrow> string \<Rightarrow> bool" where
  "isLoggedLine M P text =
     (let l = loggedPrefix (logFormat (settings P)) text
      in isValid M l (logFormat (settings P)))"

text \<open>
  The upward scan of \<open>shouldInsertLine\<close> (lines 244 to 255): \<open>while (currentLine-- > 0)\<close>
  tests the line number, decrements it and reads the line at the new number.
\<close>

fun scanAbove :: "'d moment \<Rightarrow> TimelogPlugin \<Rightarrow> editor \<Rightarrow> nat \<Rightarrow> bool option" where
  "scanAbove M P e 0 = Some False"
| "scanAbove M P e (Suc currentLine) =
     (case getLine e currentLine of
        None \<Rightarrow> None
      | Some text \<Rightarrow>
          if isLogHeader M P text then Some True
          else if isNormalHeader text then Some False
          else scanAbove M P e currentLine)"

text \<open>
  The list-mode block of \<open>shouldInsertLine\<close> (lines 226 to 242): true when the block
  returns false from the detector.
\<close>

definition listModeBlocks :: "TimelogPlugin \<Rightarrow> string \<Rightarrow> bool" where
  "listModeBlocks P text =
     (let hasList = startsWith (trim text) ''*'';
          isNested = startsWith text [CHR 0x09]
      in if useList (settings P) then
           (if indexOf text ''**'' = 0 then True
            else if isNested then True
            else if \<not> hasList then True
            else False)
         else False)"

text \<open>\<open>shouldInsertLine\<close> (lines 210 to 255).\<close>

definition shouldInsertLine :: "'d moment \<Rightarrow> TimelogPlugin \<Rightarrow> int \<Rightarrow> editor \<Rightarrow> bool option" where
  "shouldInsertLine M P now e =
     (if \<not> isWithinInterval P now then Some False
      else
        (let currentLine = line (getCursor e) in
         case getLine e currentLine of
           None \<Rightarrow> None
         | Some text \<Rightarrow>
             if isLoggedLine M P text then Some False
             else if listModeBlocks P text then Some False
             else scanAbove M P e currentLine))"

section \<open>Insertion\<close>

text \<open>\<open>getFormattedLogPrefix\<close> (lines 135 to 141).\<close>

definition getFormattedLogPrefix :: "'d moment \<Rightarrow> TimelogPlugin \<Rightarrow> string option" where
  "getFormattedLogPrefix M P =
     (case format M (logFormat (settings P)) of
        Some s \<Rightarrow> Some s
      | None \<Rightarrow> format M (logFormat DEFAULT_SETTINGS))"

text \<open>The column \<open>insertLogLine\<close> inserts at (line 123).\<close>

definition insertionOffset :: "string \<Rightarrow> int" where
  "insertionOffset text = indexOf text ''*'' + 2"

text \<open>
  \<open>insertLogLine\<close> (lines 118 to 133): the new plugin state, the new editor and the value
  returned; \<open>None\<close> when a call fails before anything is changed.
\<close>

definition insertLogLine ::
  "'d moment \<Rightarrow> TimelogPlugin \<Rightarrow> int \<Rightarrow> editor \<Rightarrow> (TimelogPlugin \<times> editor \<times> bool) option" where
  "insertLogLine M P now e =
     (let cur = getCursor e in
      case getFormattedLogPrefix M P of
        None \<Rightarrow> None
      | Some logPrefix \<Rightarrow>
          (let logHeader = ''**'' @ logPrefix @ ''**: '' in
           case getLine e (line cur) of
             None \<Rightarrow> None
           | Some text \<Rightarrow>
               (let offset = insertionOffset text;
                    e1 = replaceRange logHeader \<lparr>line = line cur, ch = nat offset\<rparr> e;
                    e2 = setCursor \<lparr>line = line cur, ch = ch cur + length logHeader\<rparr> e1
                in Some (P\<lparr>lastReplacement := Some now\<rparr>, e2, True))))"

section \<open>The command Jump to Latest Log Header\<close>

text \<open>
  The editor callback of the command (lines 78 to 102): the new editor and the notice
  shown, if any; \<open>None\<close> when a read fails.
\<close>

definition jumpToLatestLogHeader ::
  "'d::linorder moment \<Rightarrow> TimelogPlugin \<Rightarrow> editor \<Rightarrow> (editor \<times> string option) option" where
  "jumpToLatestLogHeader M P e =
     (case findLatestDatedHeader M P e of
        None \<Rightarrow> Some (e, Some ''No dated headers found'')
      | Some targetLine \<Rightarrow>
          (let desiredLine = targetLine + 1 in
           case (if desiredLine \<ge> lineCount e then
                   (case getLine e targetLine of
                      None \<Rightarrow> None
                    | Some headerText \<Rightarrow>
                        Some (replaceRange [CHR 0x0A] \<lparr>line = targetLine, ch = length headerText\<rparr> e))
                 else Some e) of
             None \<Rightarrow> None
           | Some e1 \<Rightarrow>
               (let cursorLine = nat (min (int targetLine + 1) (int (lineCount e1) - 1));
                    cur = \<lparr>line = cursorLine, ch = 0\<rparr>;
                    e2 = setCursor cur e1;
                    e3 = scrollIntoView cur cur True e2
                in Some (e3, None))))"

section \<open>A concrete date library\<close>

text \<open>
  For statements about particular lines the record of library calls is instantiated with
  the definitions of this section, which follow moment.js on the two default patterns of
  the plugin, \<open>YYYY-MM-DD\<close> for headers and \<open>HH:mm\<close> for timestamps. Parsed dates are
  triples (year, month, day) in their lexicographic order, which is the order of the
  instants they denote.
\<close>

definition isDigit :: "char \<Rightarrow> bool" where
  "isDigit c = (48 \<le> (of_char c :: nat) \<and> (of_char c :: nat) \<le> 57)"

definition digitVal :: "char \<Rightarrow> nat" where
  "digitVal c = of_char c - 48"

definition number :: "string \<Rightarrow> nat" where
  "number ds = foldl (\<lambda>a c. 10 * a + digitVal c) 0 ds"

definition isLeapYear :: "nat \<Rightarrow> bool" where
  "isLeapYear y = ((y mod 4 = 0 \<and> y mod 100 \<noteq> 0) \<or> y mod 400 = 0)"

definition daysInMonth :: "nat \<Rightarrow> nat \<Rightarrow> nat" where
  "daysInMonth y m =
     (if m = 2 then (if isLeapYear y then 29 else 28)
      else if m \<in> {4, 6, 9, 11} then 30 else 31)"

text \<open>
  Modelled from the spec: \<open>DateFormatter.parseStrict\<close> for the pattern \<open>YYYY-MM-DD\<close>
  (the library itself is not in the sources). Strict means that the whole text matches
  the pattern exactly: four digits, a hyphen, two digits, a hyphen, two digits, nothing
  before, between or after, and the three numbers form a calendar date.
\<close>

definition parseYMD :: "string \<Rightarrow> (nat \<times> nat \<times> nat) option" where
  "parseYMD text =
     (if length text = 10
         \<and> list_all isDigit (take 4 text) \<and> text ! 4 = CHR ''-''
         \<and> list_all isDigit (take 2 (drop 5 text)) \<and> text ! 7 = CHR ''-''
         \<and> list_all isDigit (drop 8 text)
      then
        (let y = number (take 4 text);
             m = number (take 2 (drop 5 text));
             d = number (drop 8 text)
         in if 1 \<le> m \<and> m \<le> 12 \<and> 1 \<le> d \<and> d \<le> daysInMonth y m
            then Some (y, m, d) else None)
      else None)"

text \<open>
  Modelled from the spec: \<open>DateFormatter.parseStrict\<close> for the pattern \<open>HH:mm\<close>, as a
  validity test: two digits, a colon, two digits and nothing else, the hour at most 23
  (or 24:00) and the minute at most 59.
\<close>

definition strictHHmm :: "string \<Rightarrow> bool" where
  "strictHHmm text =
     (length text = 5
      \<and> list_all isDigit (take 2 text) \<and> text ! 2 = CHR '':''
      \<and> list_all isDigit (drop 3 text)
      \<and> (let h = number (take 2 text); m = number (drop 3 text)
         in m \<le> 59 \<and> (h \<le> 23 \<or> (h = 24 \<and> m = 0))))"

text \<open>
  The forgiving parse \<open>moment(text, 'HH:mm').isValid()\<close>. Each numeric token takes the
  first run of one or two digits found in what is left of the text, skipping what
  stands before it; the colon of the pattern is skipped where the text has one. The
  result is valid when at least one token found digits and the hour and the minute
  are in range.
\<close>

definition match1to2 :: "string \<Rightarrow> (nat \<times> string) option" where
  "match1to2 s =
     (case dropWhile (\<lambda>c. \<not> isDigit c) s of
        [] \<Rightarrow> None
      | d1 # r \<Rightarrow>
          (case r of
             [] \<Rightarrow> Some (digitVal d1, [])
           | d2 # r' \<Rightarrow>
               if isDigit d2 then Some (10 * digitVal d1 + digitVal d2, r')
               else Some (digitVal d1, r)))"

definition skipLiteral :: "char \<Rightarrow> string \<Rightarrow> string" where
  "skipLiteral c s = (if c \<in> set s then drop 1 (dropWhile (\<lambda>x. x \<noteq> c) s) else s)"

definition forgivingHHmm :: "string \<Rightarrow> bool" where
  "forgivingHHmm text =
     (let hh = match1to2 text;
          s1 = (case hh of None \<Rightarrow> text | Some (v, r) \<Rightarrow> r);
          s2 = skipLiteral CHR '':'' s1;
          mm = match1to2 s2;
          h = (case hh of None \<Rightarrow> 0 | Some (v, r) \<Rightarrow> v);
          m = (case mm of None \<Rightarrow> 0 | Some (v, r) \<Rightarrow> v)
      in (hh \<noteq> None \<or> mm \<noteq> None) \<and> m \<le> 59 \<and> (h \<le> 23 \<or> (h = 24 \<and> m = 0)))"

text \<open>
  \<open>moment().format(pattern)\<close> on a clock that reads \<open>h\<close> hours and \<open>m\<close> minutes, for
  patterns made of the tokens \<open>HH\<close>, \<open>H\<close>, \<open>mm\<close>, \<open>m\<close> and characters that are no tokens.
\<close>

definition twoDigits :: "nat \<Rightarrow> string" where
  "twoDigits n = [char_of (48 + n div 10 mod 10), char_of (48 + n mod 10)]"

definition digits1or2 :: "nat \<Rightarrow> string" where
  "digits1or2 n = (if n < 10 then [char_of (48 + n)] else twoDigits n)"

fun formatClock :: "nat \<Rightarrow> nat \<Rightarrow> string \<Rightarrow> string" where
  "formatClock h m [] = []"
| "formatClock h m [c] =
     (if c = CHR ''H'' then digits1or2 h
      else if c = CHR ''m'' then digits1or2 m
      else [c])"
| "formatClock h m (c # c' # cs) =
     (if c = CHR ''H'' \<and> c' = CHR ''H'' then twoDigits h @ formatClock h m cs
      else if c = CHR ''m'' \<and> c' = CHR ''m'' then twoDigits m @ formatClock h m cs
      else if c = CHR ''H'' then digits1or2 h @ formatClock h m (c' # cs)
      else if c = CHR ''m'' then digits1or2 m @ formatClock h m (c' # cs)
      else c # formatClock h m (c' # cs))"

text \<open>
  The library at a moment when the clock reads \<open>h:m\<close>. A pattern other than the two
  defaults parses nothing here.
\<close>

definition momentAt :: "nat \<Rightarrow> nat \<Rightarrow> (nat \<times> nat \<times> nat) moment" where
  "momentAt h m =
     \<lparr>parseStrict = (\<lambda>text pattern. if pattern = ''YYYY-MM-DD'' then parseYMD text else None),
      isValid = (\<lambda>text pattern. pattern = ''HH:mm'' \<and> forgivingHHmm text),
      format = (\<lambda>pattern. Some (formatClock h m pattern))\<rparr>"

text \<open>The plugin as loaded with no saved settings and no daily-note settings.\<close>

definition freshPlugin :: TimelogPlugin where
  "freshPlugin =
     \<lparr>settings = DEFAULT_SETTINGS, dailyNoteFormat = DEFAULT_HEADER_FORMAT,
      lastReplacement = None\<rparr>"

section \<open>Notions used to state the properties\<close>

text \<open>
  Line \<open>i\<close> is the first header-like line met when walking upward from line \<open>n - 1\<close>:
  it is a dated header or starts with \<open>#\<close>, and no line strictly between \<open>i\<close> and \<open>n\<close> is.
\<close>

definition nearestHeaderAt :: "'d moment \<Rightarrow> TimelogPlugin \<Rightarrow> editor \<Rightarrow> nat \<Rightarrow> nat \<Rightarrow> bool" where
  "nearestHeaderAt M P e n i =
     (i < n \<and> (isLogHeader M P (lines e ! i) \<or> isNormalHeader (lines e ! i))
      \<and> (\<forall>j \<in> {i<..<n}. \<not> isLogHeader M P (lines e ! j) \<and> \<not> isNormalHeader (lines e ! j)))"

text \<open>No line above line \<open>n\<close> is header-like.\<close>

definition noHeaderAbove :: "'d moment \<Rightarrow> TimelogPlugin \<Rightarrow> editor \<Rightarrow> nat \<Rightarrow> bool" where
  "noHeaderAbove M P e n =
     (\<forall>j \<in> {..<n}. \<not> isLogHeader M P (lines e ! j) \<and> \<not> isNormalHeader (lines e ! j))"

section \<open>Example documents\<close>

text \<open>The two documents of the ancestry examples, the cursor on the item in line 2.\<close>

definition notesDoc :: editor where
  "notesDoc =
     \<lparr>lines = [''# Notes'', ''## [[2024-05-11]]'', ''- item''],
      cursor = \<lparr>line = 2, ch = 6\<rparr>, scrolledTo = None\<rparr>"

definition vetoDoc :: editor where
  "vetoDoc =
     \<lparr>lines = [''## [[2024-05-11]]'', ''# Notes'', ''- item''],
      cursor = \<lparr>line = 2, ch = 6\<rparr>, scrolledTo = None\<rparr>"

text \<open>The plugin after an insertion at time \<open>t\<close> (in milliseconds).\<close>

definition insertedAt :: "int \<Rightarrow> TimelogPlugin" where
  "insertedAt t = freshPlugin\<lparr>lastReplacement := Some t\<rparr>"


section \<open>Notions for the latest dated header\<close>

text \<open>
  The invariant of the loop of \<open>findLatestDatedHeader\<close> after the lines \<open>pre\<close>: either no
  line of \<open>pre\<close> is a dated header and nothing is tracked, or the tracked line holds the
  tracked date, no line of \<open>pre\<close> holds a later date and no earlier line holds the same.
\<close>

definition latestInv ::
  "(string \<Rightarrow> 'd::linorder option) \<Rightarrow> string list \<Rightarrow> nat option \<Rightarrow> 'd option \<Rightarrow> bool" where
  "latestInv f pre latestLine latestDate =
     (case latestLine of
        None \<Rightarrow> latestDate = None \<and> (\<forall>j<length pre. f (pre ! j) = None)
      | Some i \<Rightarrow>
          (case latestDate of
             None \<Rightarrow> False
           | Some d \<Rightarrow>
               i < length pre \<and> f (pre ! i) = Some d
               \<and> (\<forall>j<length pre. \<forall>d'. f (pre ! j) = Some d' \<longrightarrow>
                     d' \<le> d \<and> (j < i \<longrightarrow> d' < d))))"

text \<open>The date parsed from the line \<open>findLatestDatedHeader\<close> returns.\<close>

definition latestDate :: "'d::linorder moment \<Rightarrow> TimelogPlugin \<Rightarrow> editor \<Rightarrow> 'd option" where
  "latestDate M P e =
     (case findLatestDatedHeader M P e of
        None \<Rightarrow> None
      | Some i \<Rightarrow> extractHeaderDate M P (lines e ! i))"

text \<open>
  A document whose latest date stands in two headers, and the same lines in another order.
\<close>

definition latestDoc :: editor where
  "latestDoc =
     \<lparr>lines = [''## 2024-05-11'', ''## [[2024-05-13]]'', ''- note'', ''## 2024-05-12'',
               ''## 2024-05-13''],
      cursor = \<lparr>line = 2, ch = 6\<rparr>, scrolledTo = None\<rparr>"

definition shuffledDoc :: editor where
  "shuffledDoc =
     \<lparr>lines = [''## 2024-05-12'', ''- note'', ''## 2024-05-11'', ''## 2024-05-13'',
               ''## [[2024-05-13]]''],
      cursor = \<lparr>line = 1, ch = 6\<rparr>, scrolledTo = None\<rparr>"

text \<open>
  A document whose latest dated header is its last line, and one with no dated header.
\<close>

definition lastHeaderDoc :: editor where
  "lastHeaderDoc =
     \<lparr>lines = [''## 2024-05-11'', ''- x'', ''## 2024-05-12''],
      cursor = \<lparr>line = 1, ch = 3\<rparr>, scrolledTo = None\<rparr>"

definition plainDoc :: editor where
  "plainDoc =
     \<lparr>lines = [''# Notes'', ''- x''],
      cursor = \<lparr>line = 1, ch = 3\<rparr>, scrolledTo = None\<rparr>"

text \<open>
  An empty hyphen item and an empty star item under a dated header, the cursor behind
  the marker.
\<close>

definition hyphenItemDoc :: editor where
  "hyphenItemDoc =
     \<lparr>lines = [''## [[2024-05-11]]'', ''- ''],
      cursor = \<lparr>line = 1, ch = 2\<rparr>, scrolledTo = None\<rparr>"

definition starItemDoc :: editor where
  "starItemDoc =
     \<lparr>lines = [''## [[2024-05-11]]'', ''* '', ''* later''],
      cursor = \<lparr>line = 1, ch = 2\<rparr>, scrolledTo = None\<rparr>"

text \<open>
  The plugin with \<open>useList\<close> switched on, and a star item indented by two spaces under a
  dated header.
\<close>

definition listPlugin :: TimelogPlugin where
  "listPlugin = freshPlugin\<lparr>settings := DEFAULT_SETTINGS\<lparr>useList := True\<rparr>\<rparr>"

definition spacedItemDoc :: editor where
  "spacedItemDoc =
     \<lparr>lines = [''## [[2024-05-11]]'', ''  * item''],
      cursor = \<lparr>line = 1, ch = 8\<rparr>, scrolledTo = None\<rparr>"

section \<open>The logged-line test in the words of the specification\<close>

text \<open>
  The specification's procedure for \<open>isLoggedLine\<close>: strip one leading run of hyphen and
  white-space characters and every \<open>*\<close>, and take the prefix that is as long as the
  pattern. It is compared below with \<open>loggedPrefix\<close>, which is taken from the source.
\<close>

definition isListRemnant :: "char \<Rightarrow> bool" where
  "isListRemnant c = (c = CHR ''-'' \<or> isWhiteSpace c)"

definition specLoggedPrefix :: "string \<Rightarrow> string \<Rightarrow> string" where
  "specLoggedPrefix fmt text =
     take (length fmt) (filter (\<lambda>c. c \<noteq> CHR ''*'') (dropWhile isListRemnant text))"

section \<open>Properties of the editor reads and of the upward scan\<close>

lemma getLine_Some: "n < length (lines e) \<Longrightarrow> getLine e n = Some (lines e ! n)"
  by (simp add: getLine_def)

lemma getLine_SomeD: "getLine e n = Some text \<Longrightarrow> n < length (lines e) \<and> text = lines e ! n"
  by (auto simp: getLine_def split: if_splits)

lemma scanAbove_nearest:
  "n \<le> length (lines e) \<Longrightarrow> nearestHeaderAt M P e n i \<Longrightarrow>
   scanAbove M P e n = Some (isLogHeader M P (lines e ! i))"
proof (induction n)
  case 0
  then show ?case by (simp add: nearestHeaderAt_def)
next
  case (Suc n)
  from Suc.prems have n: "n < length (lines e)" by simp
  show ?case
  proof (cases "i = n")
    case True
    with Suc.prems(2) have "isLogHeader M P (lines e ! n) \<or> isNormalHeader (lines e ! n)"
      by (simp add: nearestHeaderAt_def)
    with True n show ?thesis by (auto simp: getLine_Some)
  next
    case False
    with Suc.prems(2) have i: "i < n" by (simp add: nearestHeaderAt_def)
    from Suc.prems(2) i have quiet:
      "\<not> isLogHeader M P (lines e ! n)" "\<not> isNormalHeader (lines e ! n)"
      by (simp_all add: nearestHeaderAt_def)
    from Suc.prems(2) i have "nearestHeaderAt M P e n i"
      by (simp add: nearestHeaderAt_def)
    with Suc.IH n have "scanAbove M P e n = Some (isLogHeader M P (lines e ! i))" by simp
    with quiet n show ?thesis by (simp add: getLine_Some)
  qed
qed

lemma scanAbove_noHeader:
  "n \<le> length (lines e) \<Longrightarrow> noHeaderAbove M P e n \<Longrightarrow> scanAbove M P e n = Some False"
  by (induction n) (simp_all add: noHeaderAbove_def getLine_Some)

lemma shouldInsertLine_scan:
  assumes "isWithinInterval P now"
    and "getLine e (line (getCursor e)) = Some text"
    and "\<not> isLoggedLine M P text"
    and "\<not> listModeBlocks P text"
  shows "shouldInsertLine M P now e = scanAbove M P e (line (getCursor e))"
  using assms by (simp add: shouldInsertLine_def Let_def)

lemma isWithinInterval_iff:
  "isWithinInterval P now \<longleftrightarrow>
     (case lastReplacement P of None \<Rightarrow> True
      | Some t \<Rightarrow> replacementInterval (settings P) * 1000 \<le> now - t)"
  by (auto simp: isWithinInterval_def Let_def split: option.splits)

section \<open>The ancestry scan\<close>

lemma notesDoc_gates:
  "isWithinInterval freshPlugin 0"
  "getLine notesDoc (line (getCursor notesDoc)) = Some ''- item''"
  "getLine vetoDoc (line (getCursor vetoDoc)) = Some ''- item''"
  "\<not> isLoggedLine (momentAt 9 42) freshPlugin ''- item''"
  "\<not> listModeBlocks freshPlugin ''- item''"
  by code_simp+

lemma notesDoc_headers:
  "line (getCursor notesDoc) = 2"
  "nearestHeaderAt (momentAt 9 42) freshPlugin notesDoc 2 1"
  "isLogHeader (momentAt 9 42) freshPlugin (lines notesDoc ! 1)"
  by code_simp+

lemma vetoDoc_headers:
  "line (getCursor vetoDoc) = 2"
  "nearestHeaderAt (momentAt 9 42) freshPlugin vetoDoc 2 1"
  "\<not> isLogHeader (momentAt 9 42) freshPlugin (lines vetoDoc ! 1)"
  by code_simp+

text \<open>
  C1. Once the rate limit, the already-logged test and the list-mode block have let the
  call through, \<open>shouldInsertLine\<close> answers by the first header-like line above the
  cursor, walking from line \<open>cursorLine - 1\<close> down to line \<open>0\<close>: true when that line is
  a dated header, false when it is not dated (it then starts with \<open>#\<close>), and false when
  no line above the cursor is header-like.
\<close>

theorem ancestry_scan:
  assumes "isWithinInterval P now"
    and "getLine e (line (getCursor e)) = Some text"
    and "\<not> isLoggedLine M P text"
    and "\<not> listModeBlocks P text"
  shows "(\<forall>i. nearestHeaderAt M P e (line (getCursor e)) i \<and> isLogHeader M P (lines e ! i)
            \<longrightarrow> shouldInsertLine M P now e = Some True)
       \<and> (\<forall>i. nearestHeaderAt M P e (line (getCursor e)) i \<and> \<not> isLogHeader M P (lines e ! i)
            \<longrightarrow> isNormalHeader (lines e ! i) \<and> shouldInsertLine M P now e = Some False)
       \<and> (noHeaderAbove M P e (line (getCursor e)) \<longrightarrow> shouldInsertLine M P now e = Some False)"
proof -
  from assms(2) have le: "line (getCursor e) \<le> length (lines e)"
    by (auto dest: getLine_SomeD)
  have eq: "shouldInsertLine M P now e = scanAbove M P e (line (getCursor e))"
    using assms by (rule shouldInsertLine_scan)
  have dated: "shouldInsertLine M P now e = Some True"
    if "nearestHeaderAt M P e (line (getCursor e)) i" "isLogHeader M P (lines e ! i)" for i
    using scanAbove_nearest[OF le that(1)] that(2) by (simp add: eq)
  have plain: "isNormalHeader (lines e ! i) \<and> shouldInsertLine M P now e = Some False"
    if "nearestHeaderAt M P e (line (getCursor e)) i" "\<not> isLogHeader M P (lines e ! i)" for i
    using scanAbove_nearest[OF le that(1)] that by (simp add: eq nearestHeaderAt_def)
  have none: "shouldInsertLine M P now e = Some False"
    if "noHeaderAbove M P e (line (getCursor e))"
    using scanAbove_noHeader[OF le that] by (simp add: eq)
  from dated plain none show ?thesis by blast
qed

text \<open>
  The two documents of the specification: under \<open># Notes\<close> and then the dated header the
  answer is true; with the generic header nearer to the cursor it is false.
\<close>

theorem ancestry_scan_witness:
  "isWithinInterval freshPlugin 0
   \<and> getLine notesDoc (line (getCursor notesDoc)) = Some ''- item''
   \<and> \<not> isLoggedLine (momentAt 9 42) freshPlugin ''- item''
   \<and> \<not> listModeBlocks freshPlugin ''- item''
   \<and> nearestHeaderAt (momentAt 9 42) freshPlugin notesDoc 2 1
   \<and> isLogHeader (momentAt 9 42) freshPlugin (lines notesDoc ! 1)
   \<and> shouldInsertLine (momentAt 9 42) freshPlugin 0 notesDoc = Some True
   \<and> nearestHeaderAt (momentAt 9 42) freshPlugin vetoDoc 2 1
   \<and> \<not> isLogHeader (momentAt 9 42) freshPlugin (lines vetoDoc ! 1)
   \<and> shouldInsertLine (momentAt 9 42) freshPlugin 0 vetoDoc = Some False"
proof -
  note g = notesDoc_gates
  have yes: "shouldInsertLine (momentAt 9 42) freshPlugin 0 notesDoc = Some True"
    using ancestry_scan[OF g(1) g(2) g(4) g(5), unfolded notesDoc_headers(1)]
      notesDoc_headers(2,3) by blast
  have no: "shouldInsertLine (momentAt 9 42) freshPlugin 0 vetoDoc = Some False"
    using ancestry_scan[OF g(1) g(3) g(4) g(5), unfolded vetoDoc_headers(1)]
      vetoDoc_headers(2,3) by blast
  from g(1,2,4,5) notesDoc_headers(2,3) vetoDoc_headers(2,3) yes no show ?thesis
    by blast
qed

section \<open>The rate limit\<close>

lemma insertedAt_clock:
  "lastReplacement (insertedAt 0) = Some 0"
  "replacementInterval (settings (insertedAt 0)) = 30"
  "lastReplacement freshPlugin = None"
  by (simp_all add: insertedAt_def freshPlugin_def DEFAULT_SETTINGS_def)

text \<open>
  C5. With a last insertion recorded at \<open>t\<close> and less than \<open>replacementInterval\<close> seconds
  (times are in milliseconds) between \<open>t\<close> and \<open>now\<close>, the rate-limit check fails and
  \<open>shouldInsertLine\<close> answers false whatever the plugin, the library and the editor are;
  once the interval has elapsed the check passes; with no insertion recorded it always
  passes.
\<close>

theorem rate_limit:
  "(lastReplacement P = Some t \<and> now - t < replacementInterval (settings P) * 1000
      \<longrightarrow> \<not> isWithinInterval P now \<and> shouldInsertLine M P now e = Some False)
   \<and> (lastReplacement P = Some t \<and> replacementInterval (settings P) * 1000 \<le> now - t
      \<longrightarrow> isWithinInterval P now)
   \<and> (lastReplacement P = None \<longrightarrow> isWithinInterval P now)"
  by (auto simp: isWithinInterval_iff shouldInsertLine_def)

text \<open>
  An interval of 30 seconds: 10 seconds after an insertion the detector answers false
  on a document where it otherwise answers true; 31 seconds after it the check passes.
\<close>

theorem rate_limit_witness:
  "lastReplacement (insertedAt 0) = Some 0
   \<and> (10000 :: int) - 0 < replacementInterval (settings (insertedAt 0)) * 1000
   \<and> shouldInsertLine (momentAt 9 42) (insertedAt 0) 10000 notesDoc = Some False
   \<and> replacementInterval (settings (insertedAt 0)) * 1000 \<le> (31000 :: int) - 0
   \<and> isWithinInterval (insertedAt 0) 31000
   \<and> lastReplacement freshPlugin = None
   \<and> isWithinInterval freshPlugin 31000"
  using rate_limit[of "insertedAt 0" 0 10000 "momentAt 9 42" notesDoc]
    rate_limit[of "insertedAt 0" 0 31000 "momentAt 9 42" notesDoc]
    rate_limit[of freshPlugin 0 31000 "momentAt 9 42" notesDoc]
  by (simp add: insertedAt_clock)

section \<open>The latest dated header\<close>

lemma latestInv_skip:
  "latestInv f pre ll ld \<Longrightarrow> f x = None \<Longrightarrow> latestInv f (pre @ [x]) ll ld"
  by (auto simp: latestInv_def nth_append less_Suc_eq split: option.splits)

lemma latestInv_first:
  "latestInv f pre ll None \<Longrightarrow> f x = Some d \<Longrightarrow>
   latestInv f (pre @ [x]) (Some (length pre)) (Some d)"
  by (auto simp: latestInv_def nth_append less_Suc_eq split: option.splits)

lemma latestInv_better:
  "latestInv f pre ll (Some d0) \<Longrightarrow> f x = Some d \<Longrightarrow> d > d0 \<Longrightarrow>
   latestInv f (pre @ [x]) (Some (length pre)) (Some d)"
  by (fastforce simp: latestInv_def nth_append less_Suc_eq split: option.splits)

lemma latestInv_keep:
  "latestInv f pre ll (Some d0) \<Longrightarrow> f x = Some d \<Longrightarrow> \<not> d > d0 \<Longrightarrow>
   latestInv f (pre @ [x]) ll (Some d0)"
  by (auto simp: latestInv_def nth_append less_Suc_eq split: option.splits)

lemma latestLoop_inv:
  "latestInv (extractHeaderDate M P) pre ll ld \<Longrightarrow>
   \<exists>ld'. latestInv (extractHeaderDate M P) (pre @ xs) (latestLoop M P xs (length pre) ll ld) ld'"
proof (induction xs arbitrary: pre ll ld)
  case Nil
  then show ?case by auto
next
  case (Cons x xs)
  let ?f = "extractHeaderDate M P"
  have step: "\<exists>ld'. latestInv ?f ((pre @ [x]) @ xs) (latestLoop M P xs (length (pre @ [x])) ll' ld'') ld'"
    if "latestInv ?f (pre @ [x]) ll' ld''" for ll' ld''
    using Cons.IH[OF that] .
  show ?case
  proof (cases "?f x")
    case None
    from step[OF latestInv_skip[OF Cons.prems None]] None show ?thesis by simp
  next
    case (Some d)
    show ?thesis
    proof (cases ld)
      case None
      from step[OF latestInv_first[OF Cons.prems[unfolded None] Some]] Some None
      show ?thesis by simp
    next
      case (Some d0)
      note ld = this
      show ?thesis
      proof (cases "d > d0")
        case True
        from step[OF latestInv_better[OF Cons.prems[unfolded ld] \<open>?f x = Some d\<close> True]]
          \<open>?f x = Some d\<close> ld True
        show ?thesis by simp
      next
        case False
        from step[OF latestInv_keep[OF Cons.prems[unfolded ld] \<open>?f x = Some d\<close> False]]
          \<open>?f x = Some d\<close> ld False
        show ?thesis by simp
      qed
    qed
  qed
qed

lemma findLatest_inv:
  "\<exists>ld. latestInv (extractHeaderDate M P) (lines e) (findLatestDatedHeader M P e) ld"
  using latestLoop_inv[of M P "[]" None None "lines e"]
  by (simp add: findLatestDatedHeader_def latestInv_def)

lemma latestInv_NoneD:
  "latestInv f pre None ld \<Longrightarrow> j < length pre \<Longrightarrow> f (pre ! j) = None"
  by (simp add: latestInv_def)

lemma latestInv_SomeD:
  "latestInv f pre (Some i) ld \<Longrightarrow>
   i < length pre \<and>
   (\<exists>d. f (pre ! i) = Some d
      \<and> (\<forall>j<length pre. \<forall>d'. f (pre ! j) = Some d' \<longrightarrow> d' \<le> d \<and> (j < i \<longrightarrow> d' < d)))"
  by (cases ld) (simp_all add: latestInv_def)

lemma findLatest_None_iff:
  "findLatestDatedHeader M P e = None \<longleftrightarrow>
     (\<forall>i<lineCount e. extractHeaderDate M P (lines e ! i) = None)"
proof -
  obtain ld where inv:
    "latestInv (extractHeaderDate M P) (lines e) (findLatestDatedHeader M P e) ld"
    using findLatest_inv by blast
  show ?thesis
  proof (cases "findLatestDatedHeader M P e")
    case None
    with inv show ?thesis by (auto simp: lineCount_def dest: latestInv_NoneD)
  next
    case (Some i)
    with inv have "i < length (lines e)" "extractHeaderDate M P (lines e ! i) \<noteq> None"
      by (auto dest: latestInv_SomeD)
    with Some show ?thesis by (auto simp: lineCount_def)
  qed
qed

lemma findLatest_Some:
  assumes "findLatestDatedHeader M P e = Some i"
  shows "i < lineCount e \<and>
   (\<exists>d. extractHeaderDate M P (lines e ! i) = Some d
      \<and> (\<forall>j<lineCount e. \<forall>d'. extractHeaderDate M P (lines e ! j) = Some d' \<longrightarrow>
            d' \<le> d \<and> (j < i \<longrightarrow> d' < d)))"
proof -
  obtain ld where
    "latestInv (extractHeaderDate M P) (lines e) (findLatestDatedHeader M P e) ld"
    using findLatest_inv by blast
  with assms have "latestInv (extractHeaderDate M P) (lines e) (Some i) ld" by simp
  from latestInv_SomeD[OF this] show ?thesis by (simp add: lineCount_def)
qed

lemma latestDate_None_iff:
  "latestDate M P e = None \<longleftrightarrow> (\<forall>x \<in> set (lines e). extractHeaderDate M P x = None)"
proof (cases "findLatestDatedHeader M P e")
  case None
  then show ?thesis using findLatest_None_iff[of M P e]
    by (auto simp: latestDate_def lineCount_def in_set_conv_nth)
next
  case (Some i)
  from findLatest_Some[OF Some] obtain d where
    "i < length (lines e)" "extractHeaderDate M P (lines e ! i) = Some d"
    by (auto simp: lineCount_def)
  then have "latestDate M P e = Some d" "lines e ! i \<in> set (lines e)"
    "extractHeaderDate M P (lines e ! i) \<noteq> None"
    using Some by (simp_all add: latestDate_def)
  then show ?thesis by auto
qed

lemma latestDate_Some:
  assumes "latestDate M P e = Some d"
  shows "(\<exists>x \<in> set (lines e). extractHeaderDate M P x = Some d)
   \<and> (\<forall>x \<in> set (lines e). \<forall>d'. extractHeaderDate M P x = Some d' \<longrightarrow> d' \<le> d)"
proof -
  from assms obtain i where i: "findLatestDatedHeader M P e = Some i"
    by (auto simp: latestDate_def split: option.splits)
  with assms have d: "extractHeaderDate M P (lines e ! i) = Some d"
    by (simp add: latestDate_def)
  from findLatest_Some[OF i] d have lt: "i < length (lines e)"
    and mx: "\<forall>j<length (lines e). \<forall>d'. extractHeaderDate M P (lines e ! j) = Some d' \<longrightarrow> d' \<le> d"
    by (auto simp: lineCount_def)
  from lt d have "\<exists>x \<in> set (lines e). extractHeaderDate M P x = Some d"
    using nth_mem by blast
  moreover from mx have "\<forall>x \<in> set (lines e). \<forall>d'. extractHeaderDate M P x = Some d' \<longrightarrow> d' \<le> d"
    by (auto simp: in_set_conv_nth)
  ultimately show ?thesis by blast
qed

lemma latestDate_set:
  assumes "set (lines e) = set (lines e')"
  shows "latestDate M P e = latestDate M P e'"
proof (cases "latestDate M P e")
  case None
  then have "latestDate M P e' = None"
    using assms by (simp add: latestDate_None_iff)
  with None show ?thesis by simp
next
  case (Some d)
  then have "latestDate M P e' \<noteq> None"
    using assms latestDate_None_iff[of M P e] latestDate_None_iff[of M P e'] by auto
  then obtain d' where d': "latestDate M P e' = Some d'" by auto
  from latestDate_Some[OF Some] latestDate_Some[OF d'] assms
  have "d \<le> d'" "d' \<le> d" by auto
  with Some d' show ?thesis by simp
qed

lemma latestDoc_facts:
  "findLatestDatedHeader (momentAt 9 42) freshPlugin latestDoc = Some 1"
  "extractHeaderDate (momentAt 9 42) freshPlugin (lines latestDoc ! 1) = Some (2024, 5, 13)"
  "extractHeaderDate (momentAt 9 42) freshPlugin (lines latestDoc ! 4) = Some (2024, 5, 13)"
  "findLatestDatedHeader (momentAt 9 42) freshPlugin shuffledDoc = Some 3"
  "set (lines shuffledDoc) = set (lines latestDoc)"
  by code_simp+

text \<open>
  C6. \<open>findLatestDatedHeader\<close> returns nothing exactly when no line is a dated header.
  Otherwise it returns a line of the document that is a dated header, no dated header
  of the document has a later date, and every dated header before the returned line has
  a strictly earlier date: of several headers with the latest date the first is returned.
  The date found depends only on which lines the document has, not on their order.
\<close>

theorem latest_dated_header:
  "(findLatestDatedHeader M P e = None \<longleftrightarrow>
      (\<forall>i<lineCount e. extractHeaderDate M P (lines e ! i) = None))
   \<and> (\<forall>i. findLatestDatedHeader M P e = Some i \<longrightarrow>
         i < lineCount e \<and>
         (\<exists>d. extractHeaderDate M P (lines e ! i) = Some d
            \<and> (\<forall>j<lineCount e. \<forall>d'. extractHeaderDate M P (lines e ! j) = Some d' \<longrightarrow>
                  d' \<le> d \<and> (j < i \<longrightarrow> d' < d))))
   \<and> (\<forall>e'. set (lines e') = set (lines e) \<longrightarrow> latestDate M P e' = latestDate M P e)"
  using findLatest_None_iff[of M P e] findLatest_Some[of M P e] latestDate_set[of _ e M P]
  by blast

text \<open>
  Two headers carry the latest date, 13 May: the one in line 1 is returned, not the one
  in line 4; in the reordered document the date found is the same.
\<close>

theorem latest_dated_header_witness:
  "findLatestDatedHeader (momentAt 9 42) freshPlugin latestDoc = Some 1
   \<and> 1 < lineCount latestDoc
   \<and> extractHeaderDate (momentAt 9 42) freshPlugin (lines latestDoc ! 1) = Some (2024, 5, 13)
   \<and> extractHeaderDate (momentAt 9 42) freshPlugin (lines latestDoc ! 4) = Some (2024, 5, 13)
   \<and> findLatestDatedHeader (momentAt 9 42) freshPlugin shuffledDoc = Some 3
   \<and> set (lines shuffledDoc) = set (lines latestDoc)
   \<and> latestDate (momentAt 9 42) freshPlugin shuffledDoc
       = latestDate (momentAt 9 42) freshPlugin latestDoc"
proof -
  note T = latest_dated_header[of "momentAt 9 42" freshPlugin latestDoc]
  from T latestDoc_facts(1) have "1 < lineCount latestDoc" by blast
  moreover from T latestDoc_facts(5)
  have "latestDate (momentAt 9 42) freshPlugin shuffledDoc
       = latestDate (momentAt 9 42) freshPlugin latestDoc" by blast
  ultimately show ?thesis using latestDoc_facts by blast
qed

section \<open>Header dates\<close>

lemma parseYMD_examples:
  "parseYMD ''2024-5-11'' = None"
  "parseYMD ''2024-05-11'' = Some (2024, 5, 11)"
  by code_simp+

lemma momentAt_parseStrict:
  "parseStrict (momentAt h m) text ''YYYY-MM-DD'' = parseYMD text"
  by (simp add: momentAt_def)

lemma freshPlugin_format: "dailyNoteFormat freshPlugin = ''YYYY-MM-DD''"
  by (simp add: freshPlugin_def DEFAULT_HEADER_FORMAT_def)

lemma dateText_plain:
  "extractHeaderDate M P ''## 2024-5-11'' = parseStrict M ''2024-5-11'' (dailyNoteFormat P)"
  "extractHeaderDate M P ''## 2024-05-11'' = parseStrict M ''2024-05-11'' (dailyNoteFormat P)"
  by (simp_all add: extractHeaderDate_def Let_def trim_def startsWith_def isWhiteSpace_def
      linkAt_def splitFirst_def isLineTerminator_def)

lemma dateText_link:
  "extractHeaderDate M P ''## [[2024-05-11|Notes]]'' = parseStrict M ''2024-05-11'' (dailyNoteFormat P)"
  by (simp add: extractHeaderDate_def Let_def trim_def startsWith_def isWhiteSpace_def
      linkAt_def splitFirst_def isLineTerminator_def)

text \<open>
  C7. Against the pattern \<open>YYYY-MM-DD\<close> the line \<open>## 2024-5-11\<close> yields no date (the
  month is not padded) and the line \<open>## 2024-05-11\<close> yields 11 May 2024. For every
  library and every header pattern the line \<open>## [[2024-05-11|Notes]]\<close> yields what
  \<open>## 2024-05-11\<close> yields: the text parsed is the inner text of the link before the
  first pipe, \<open>2024-05-11\<close>.
\<close>

theorem header_date_strict_and_link:
  "extractHeaderDate (momentAt h m) freshPlugin ''## 2024-5-11'' = None
   \<and> extractHeaderDate (momentAt h m) freshPlugin ''## 2024-05-11'' = Some (2024, 5, 11)
   \<and> extractHeaderDate M P ''## [[2024-05-11|Notes]]'' = extractHeaderDate M P ''## 2024-05-11''
   \<and> extractHeaderDate M P ''## [[2024-05-11|Notes]]''
       = parseStrict M ''2024-05-11'' (dailyNoteFormat P)"
  by (simp only: dateText_plain dateText_link freshPlugin_format momentAt_parseStrict
      parseYMD_examples simp_thms)

section \<open>Dated headers and normal headers\<close>

lemma isNormalHeader_iff: "isNormalHeader text \<longleftrightarrow> (\<exists>rest. text = CHR ''#'' # rest)"
  by (cases "text") (auto simp: isNormalHeader_def startsWith_def)

lemma hash_not_space: "\<not> isWhiteSpace CHR ''#''"
  by (simp add: isWhiteSpace_def)

lemma trim_prefix: "\<exists>ys. dropWhile isWhiteSpace s = trim s @ ys"
proof -
  let ?s = "dropWhile isWhiteSpace s"
  have "trim s @ rev (takeWhile isWhiteSpace (rev ?s))
        = rev (takeWhile isWhiteSpace (rev ?s) @ dropWhile isWhiteSpace (rev ?s))"
    by (simp only: trim_def rev_append)
  also have "\<dots> = ?s" by (simp only: takeWhile_dropWhile_id rev_rev_ident)
  finally show ?thesis by metis
qed

lemma trim_hash:
  assumes "startsWith (trim s) ''#''"
  shows "isNormalHeader (dropWhile isWhiteSpace s)"
proof -
  from assms obtain r where r: "trim s = CHR ''#'' # r"
    by (cases "trim s") (auto simp: startsWith_def)
  from trim_prefix[of s] obtain ys where "dropWhile isWhiteSpace s = trim s @ ys" by blast
  with r show ?thesis by (simp add: isNormalHeader_iff)
qed

lemma dated_trimmed_hash:
  "extractHeaderDate M P text \<noteq> None \<Longrightarrow> isNormalHeader (dropWhile isWhiteSpace text)"
  by (rule trim_hash) (auto simp: extractHeaderDate_def Let_def split: if_splits)

lemma flush_header_facts:
  "extractHeaderDate (momentAt 9 42) freshPlugin ''## 2024-05-11'' \<noteq> None"
  "dropWhile isWhiteSpace ''## 2024-05-11'' = ''## 2024-05-11''"
  "extractHeaderDate (momentAt 9 42) freshPlugin '' ## 2024-05-11'' \<noteq> None"
  "dropWhile isWhiteSpace '' ## 2024-05-11'' = ''## 2024-05-11''"
  by code_simp+

text \<open>
  C8 as stated fails: \<open>extractHeaderDate\<close> trims the line before it looks for \<open>#\<close>,
  \<open>isNormalHeader\<close> does not, so a dated header behind a space is no normal header.
\<close>

theorem dated_header_not_normal:
  "extractHeaderDate (momentAt 9 42) freshPlugin '' ## 2024-05-11'' = Some (2024, 5, 11)
   \<and> \<not> isNormalHeader '' ## 2024-05-11''"
  by code_simp

text \<open>
  C8, amended. \<open>isNormalHeader\<close> holds exactly of the lines that begin with \<open>#\<close>. A
  dated header begins with \<open>#\<close> once its leading white space is removed; it is a normal
  header exactly when it has no leading white space.
\<close>

theorem dated_header_normal_when_flush:
  "(isNormalHeader text \<longleftrightarrow> (\<exists>rest. text = CHR ''#'' # rest))
   \<and> (extractHeaderDate M P text \<noteq> None \<longrightarrow> isNormalHeader (dropWhile isWhiteSpace text))
   \<and> (extractHeaderDate M P text \<noteq> None \<longrightarrow>
        (isNormalHeader text \<longleftrightarrow> dropWhile isWhiteSpace text = text))"
proof -
  have "isNormalHeader text \<longleftrightarrow> dropWhile isWhiteSpace text = text"
    if "extractHeaderDate M P text \<noteq> None"
  proof
    assume "isNormalHeader text"
    then show "dropWhile isWhiteSpace text = text"
      by (auto simp: isNormalHeader_iff hash_not_space)
  next
    assume "dropWhile isWhiteSpace text = text"
    with dated_trimmed_hash[OF that] show "isNormalHeader text" by simp
  qed
  with isNormalHeader_iff[of "text"] dated_trimmed_hash[of M P "text"] show ?thesis by blast
qed

text \<open>The dated header flush left is a normal header; indented by one space it is not.\<close>

theorem dated_header_normal_when_flush_witness:
  "extractHeaderDate (momentAt 9 42) freshPlugin ''## 2024-05-11'' \<noteq> None
   \<and> dropWhile isWhiteSpace ''## 2024-05-11'' = ''## 2024-05-11''
   \<and> isNormalHeader ''## 2024-05-11''
   \<and> extractHeaderDate (momentAt 9 42) freshPlugin '' ## 2024-05-11'' \<noteq> None
   \<and> isNormalHeader (dropWhile isWhiteSpace '' ## 2024-05-11'')
   \<and> \<not> isNormalHeader '' ## 2024-05-11''"
proof -
  note f = flush_header_facts
  from dated_header_normal_when_flush[of "''## 2024-05-11''" "momentAt 9 42" freshPlugin] f(1,2)
  have a: "isNormalHeader ''## 2024-05-11''" by blast
  from dated_header_normal_when_flush[of "'' ## 2024-05-11''" "momentAt 9 42" freshPlugin] f(3)
  have b: "isNormalHeader (dropWhile isWhiteSpace '' ## 2024-05-11'')"
    and c: "isNormalHeader '' ## 2024-05-11'' \<longleftrightarrow>
       dropWhile isWhiteSpace '' ## 2024-05-11'' = '' ## 2024-05-11''"
    by blast+
  from c f(4) have "\<not> isNormalHeader '' ## 2024-05-11''" by simp
  with a b f show ?thesis by blast
qed

section \<open>Jump to Latest Log Header\<close>

lemma replaceRange_newline_at_end:
  assumes "t + 1 = length (lines e)"
  shows "replaceRange [CHR 0x0A] \<lparr>line = t, ch = length (lines e ! t)\<rparr> e
         = e\<lparr>lines := lines e @ [[]]\<rparr>"
proof -
  from assms have t: "t < length (lines e)" by simp
  from assms have "take t (lines e) @ [lines e ! t] = lines e"
    by (metis Suc_eq_plus1 lessI take_Suc_conv_app_nth take_all order_refl)
  then have "take t (lines e) @ [lines e ! t, []] = lines e @ [[]]"
    by (metis append.assoc append_Cons append_Nil)
  with t assms show ?thesis
    by (simp add: replaceRange_def Let_def)
qed

lemma jump_docs:
  "findLatestDatedHeader (momentAt 9 42) freshPlugin plainDoc = None"
  "findLatestDatedHeader (momentAt 9 42) freshPlugin lastHeaderDoc = Some 2"
  "lineCount lastHeaderDoc = 3"
  "lineCount latestDoc = 5"
  by code_simp+

text \<open>
  C9. When \<open>findLatestDatedHeader\<close> finds nothing, the command shows the notice and
  returns the editor as it was: document, cursor and scroll position. When it finds the
  header in line \<open>t\<close>, an empty line is added after the header if the header is the last
  line of the document, nothing else of the document changes, and the cursor is put at
  column 0 of line \<open>t + 1\<close>, which is a line of the resulting document.
\<close>

theorem jump_to_latest:
  "(findLatestDatedHeader M P e = None \<longrightarrow>
      jumpToLatestLogHeader M P e = Some (e, Some ''No dated headers found''))
   \<and> (\<forall>t. findLatestDatedHeader M P e = Some t \<longrightarrow>
         t < lineCount e
         \<and> jumpToLatestLogHeader M P e =
             Some (e\<lparr>lines := (if t + 1 = lineCount e then lines e @ [[]] else lines e),
                     cursor := \<lparr>line = t + 1, ch = 0\<rparr>,
                     scrolledTo := Some \<lparr>line = t + 1, ch = 0\<rparr>\<rparr>,
                   None)
         \<and> t + 1 < length (if t + 1 = lineCount e then lines e @ [[]] else lines e))"
proof -
  have found: "t < lineCount e
         \<and> jumpToLatestLogHeader M P e =
             Some (e\<lparr>lines := (if t + 1 = lineCount e then lines e @ [[]] else lines e),
                     cursor := \<lparr>line = t + 1, ch = 0\<rparr>,
                     scrolledTo := Some \<lparr>line = t + 1, ch = 0\<rparr>\<rparr>,
                   None)
         \<and> t + 1 < length (if t + 1 = lineCount e then lines e @ [[]] else lines e)"
    if t: "findLatestDatedHeader M P e = Some t" for t
  proof -
    from findLatest_Some[OF t] have lt: "t < length (lines e)" by (simp add: lineCount_def)
    show ?thesis
    proof (cases "t + 1 = length (lines e)")
      case True
      with lt t show ?thesis
        by (simp add: jumpToLatestLogHeader_def Let_def lineCount_def getLine_Some
            replaceRange_newline_at_end setCursor_def scrollIntoView_def)
    next
      case False
      with lt have "t + 1 < length (lines e)" by simp
      with lt t False show ?thesis
        by (simp add: jumpToLatestLogHeader_def Let_def lineCount_def
            setCursor_def scrollIntoView_def min_def)
    qed
  qed
  have "jumpToLatestLogHeader M P e = Some (e, Some ''No dated headers found'')"
    if "findLatestDatedHeader M P e = None"
    using that by (simp add: jumpToLatestLogHeader_def)
  with found show ?thesis by blast
qed

text \<open>
  No dated header: the notice. The latest header in the last line: an empty line is
  added and the cursor lands on it. The latest header in line 1 of five: the cursor
  moves to line 2 and the document keeps its lines.
\<close>

theorem jump_to_latest_witness:
  "findLatestDatedHeader (momentAt 9 42) freshPlugin plainDoc = None
   \<and> jumpToLatestLogHeader (momentAt 9 42) freshPlugin plainDoc
       = Some (plainDoc, Some ''No dated headers found'')
   \<and> findLatestDatedHeader (momentAt 9 42) freshPlugin lastHeaderDoc = Some 2
   \<and> jumpToLatestLogHeader (momentAt 9 42) freshPlugin lastHeaderDoc
       = Some (\<lparr>lines = [''## 2024-05-11'', ''- x'', ''## 2024-05-12'', []],
                cursor = \<lparr>line = 3, ch = 0\<rparr>,
                scrolledTo = Some \<lparr>line = 3, ch = 0\<rparr>\<rparr>, None)
   \<and> findLatestDatedHeader (momentAt 9 42) freshPlugin latestDoc = Some 1
   \<and> jumpToLatestLogHeader (momentAt 9 42) freshPlugin latestDoc
       = Some (latestDoc\<lparr>cursor := \<lparr>line = 2, ch = 0\<rparr>,
                          scrolledTo := Some \<lparr>line = 2, ch = 0\<rparr>\<rparr>, None)"
proof -
  note T = jump_to_latest[of "momentAt 9 42" freshPlugin]
  from T[of plainDoc] jump_docs(1)
  have a: "jumpToLatestLogHeader (momentAt 9 42) freshPlugin plainDoc
       = Some (plainDoc, Some ''No dated headers found'')" by blast
  from T[of lastHeaderDoc] jump_docs(2)
  have "jumpToLatestLogHeader (momentAt 9 42) freshPlugin lastHeaderDoc =
             Some (lastHeaderDoc\<lparr>lines := (if 2 + 1 = lineCount lastHeaderDoc
                        then lines lastHeaderDoc @ [[]] else lines lastHeaderDoc),
                     cursor := \<lparr>line = 2 + 1, ch = 0\<rparr>,
                     scrolledTo := Some \<lparr>line = 2 + 1, ch = 0\<rparr>\<rparr>,
                   None)" by blast
  then have "jumpToLatestLogHeader (momentAt 9 42) freshPlugin lastHeaderDoc =
             Some (lastHeaderDoc\<lparr>lines := lines lastHeaderDoc @ [[]],
                     cursor := \<lparr>line = 3, ch = 0\<rparr>,
                     scrolledTo := Some \<lparr>line = 3, ch = 0\<rparr>\<rparr>,
                   None)"
    by (simp add: jump_docs(3))
  then have b: "jumpToLatestLogHeader (momentAt 9 42) freshPlugin lastHeaderDoc
       = Some (\<lparr>lines = [''## 2024-05-11'', ''- x'', ''## 2024-05-12'', []],
                cursor = \<lparr>line = 3, ch = 0\<rparr>,
                scrolledTo = Some \<lparr>line = 3, ch = 0\<rparr>\<rparr>, None)"
    by (simp add: lastHeaderDoc_def)
  from T[of latestDoc] latestDoc_facts(1)
  have "jumpToLatestLogHeader (momentAt 9 42) freshPlugin latestDoc =
             Some (latestDoc\<lparr>lines := (if 1 + 1 = lineCount latestDoc
                        then lines latestDoc @ [[]] else lines latestDoc),
                     cursor := \<lparr>line = 1 + 1, ch = 0\<rparr>,
                     scrolledTo := Some \<lparr>line = 1 + 1, ch = 0\<rparr>\<rparr>,
                   None)" by blast
  then have c: "jumpToLatestLogHeader (momentAt 9 42) freshPlugin latestDoc
       = Some (latestDoc\<lparr>cursor := \<lparr>line = 2, ch = 0\<rparr>,
                          scrolledTo := Some \<lparr>line = 2, ch = 0\<rparr>\<rparr>, None)"
    by (simp add: jump_docs(4))
  from a b c jump_docs(1,2) latestDoc_facts(1) show ?thesis by blast
qed

section \<open>Insertion of the prefix\<close>

lemma splitLines_single:
  "\<forall>c \<in> set s. \<not> isLineTerminator c \<Longrightarrow> splitLines s = [s]"
  by (induction s rule: splitLines.induct) (auto simp: isLineTerminator_def)

lemma replaceRange_single:
  assumes "n < length (lines e)" and "\<forall>c \<in> set t. \<not> isLineTerminator c"
  shows "replaceRange t \<lparr>line = n, ch = k\<rparr> e
         = e\<lparr>lines := (lines e)[n := take k (lines e ! n) @ t @ drop k (lines e ! n)]\<rparr>"
  using assms
  by (simp add: replaceRange_def Let_def splitLines_single upd_conv_take_nth_drop)

lemma logHeader_single:
  "\<forall>c \<in> set ts. \<not> isLineTerminator c \<Longrightarrow>
   \<forall>c \<in> set (''**'' @ ts @ ''**: ''). \<not> isLineTerminator c"
  by (auto simp: isLineTerminator_def)

lemma indexOfFrom_char:
  "indexOfFrom s [c] i =
     (if c \<in> set s then i + int (length (takeWhile (\<lambda>x. x \<noteq> c) s)) else - 1)"
  by (induction s arbitrary: i) (auto simp: startsWith_def)

lemma insertionOffset_cases:
  "insertionOffset s =
     (if CHR ''*'' \<in> set s then int (length (takeWhile (\<lambda>x. x \<noteq> CHR ''*'') s)) + 2 else 1)"
  by (simp add: insertionOffset_def indexOf_def indexOfFrom_char)

text \<open>
  C2 fails on the code. \<open>indexOf\<close> returns \<open>-1\<close> on a line with no \<open>*\<close>, and
  \<open>insertLogLine\<close> adds 2 to it without a test: the prefix goes to column 1, not to
  column 0. On the line \<open>- \<close> the result is \<open>-**09:42**:  \<close>. With a marker the column is
  2 past the first \<open>*\<close>, as on the second line below.
\<close>

theorem insertion_offset_without_marker:
  "insertionOffset ''- '' = 1
   \<and> insertionOffset ''- **old**: text'' = 4
   \<and> insertLogLine (momentAt 9 42) freshPlugin 1000 hyphenItemDoc
       = Some (freshPlugin\<lparr>lastReplacement := Some 1000\<rparr>,
               hyphenItemDoc\<lparr>lines := [''## [[2024-05-11]]'', ''-**09:42**:  ''],
                              cursor := \<lparr>line = 1, ch = 13\<rparr>\<rparr>, True)"
  by code_simp

lemma starItemDoc_facts:
  "line (getCursor starItemDoc) < lineCount starItemDoc"
  "getFormattedLogPrefix (momentAt 9 42) freshPlugin = Some ''09:42''"
  "\<forall>c \<in> set ''09:42''. \<not> isLineTerminator c"
  by code_simp+

lemma starItemDoc_values:
  "line (getCursor starItemDoc) = 1" "ch (getCursor starItemDoc) = 2"
  "lines starItemDoc ! 1 = ''* ''" "insertionOffset ''* '' = 2"
  "lines starItemDoc = [''## [[2024-05-11]]'', ''* '', ''* later'']"
  by code_simp+

text \<open>
  C10. Let the cursor be on a line of the document and let the formatted timestamp hold
  no line break. Then \<open>insertLogLine\<close> succeeds; the plugin differs from the old one only
  in \<open>lastReplacement\<close>, which is \<open>now\<close>; the cursor line receives the prefix at one
  column and every other line, the number of lines and the scroll position are as
  before; the cursor stays on its line, moved right by the length of the prefix.
\<close>

theorem insertLogLine_frame:
  assumes "line (getCursor e) < lineCount e"
    and "getFormattedLogPrefix M P = Some ts"
    and "\<forall>c \<in> set ts. \<not> isLineTerminator c"
  shows "\<exists>P' e'. insertLogLine M P now e = Some (P', e', True)
     \<and> P' = P\<lparr>lastReplacement := Some now\<rparr>
     \<and> lines e' = (lines e)[line (getCursor e) :=
           take (nat (insertionOffset (lines e ! line (getCursor e)))) (lines e ! line (getCursor e))
           @ (''**'' @ ts @ ''**: '')
           @ drop (nat (insertionOffset (lines e ! line (getCursor e)))) (lines e ! line (getCursor e))]
     \<and> length (lines e') = length (lines e)
     \<and> (\<forall>i. i \<noteq> line (getCursor e) \<longrightarrow> lines e' ! i = lines e ! i)
     \<and> cursor e' = \<lparr>line = line (getCursor e), ch = ch (getCursor e) + length (''**'' @ ts @ ''**: '')\<rparr>
     \<and> scrolledTo e' = scrolledTo e"
proof -
  define h where "h = ''**'' @ ts @ ''**: ''"
  define cl where "cl = line (getCursor e)"
  define k where "k = nat (insertionOffset (lines e ! cl))"
  from assms(1) have lt: "cl < length (lines e)" by (simp add: lineCount_def cl_def)
  have hs: "\<forall>c \<in> set h. \<not> isLineTerminator c"
    unfolding h_def by (rule logHeader_single[OF assms(3)])
  have ins: "insertLogLine M P now e =
      Some (P\<lparr>lastReplacement := Some now\<rparr>,
            setCursor \<lparr>line = cl, ch = ch (getCursor e) + length h\<rparr>
              (replaceRange h \<lparr>line = cl, ch = k\<rparr> e), True)"
    using lt assms(2)
    by (simp add: insertLogLine_def Let_def getLine_Some h_def cl_def k_def)
  have rr: "replaceRange h \<lparr>line = cl, ch = k\<rparr> e
      = e\<lparr>lines := (lines e)[cl := take k (lines e ! cl) @ h @ drop k (lines e ! cl)]\<rparr>"
    by (rule replaceRange_single[OF lt hs])
  let ?e' = "setCursor \<lparr>line = cl, ch = ch (getCursor e) + length h\<rparr>
              (replaceRange h \<lparr>line = cl, ch = k\<rparr> e)"
  have l: "lines ?e' = (lines e)[cl := take k (lines e ! cl) @ h @ drop k (lines e ! cl)]"
    by (simp add: rr setCursor_def)
  have c: "cursor ?e' = \<lparr>line = cl, ch = ch (getCursor e) + length h\<rparr>"
    by (simp add: setCursor_def)
  have s: "scrolledTo ?e' = scrolledTo e"
    by (simp add: rr setCursor_def)
  have len: "length (lines ?e') = length (lines e)"
    by (simp only: l length_list_update)
  have others: "\<forall>i. i \<noteq> cl \<longrightarrow> lines ?e' ! i = lines e ! i"
    by (simp only: l) simp
  from ins l len others c s show ?thesis
    unfolding h_def cl_def k_def by blast
qed

text \<open>
  An empty star item between a header and another item: only line 1 changes.
\<close>

theorem insertLogLine_frame_witness:
  "line (getCursor starItemDoc) < lineCount starItemDoc
   \<and> getFormattedLogPrefix (momentAt 9 42) freshPlugin = Some ''09:42''
   \<and> insertLogLine (momentAt 9 42) freshPlugin 1000 starItemDoc
       = Some (freshPlugin\<lparr>lastReplacement := Some 1000\<rparr>,
               starItemDoc\<lparr>lines := [''## [[2024-05-11]]'', ''* **09:42**: '', ''* later''],
                            cursor := \<lparr>line = 1, ch = 13\<rparr>\<rparr>, True)"
proof -
  note f = starItemDoc_facts
  from insertLogLine_frame[OF f(1) f(2) f(3), of 1000]
  obtain P' e' where r: "insertLogLine (momentAt 9 42) freshPlugin 1000 starItemDoc = Some (P', e', True)"
    and P': "P' = freshPlugin\<lparr>lastReplacement := Some 1000\<rparr>"
    and l: "lines e' = (lines starItemDoc)[line (getCursor starItemDoc) :=
           take (nat (insertionOffset (lines starItemDoc ! line (getCursor starItemDoc)))) (lines starItemDoc ! line (getCursor starItemDoc))
           @ (''**'' @ ''09:42'' @ ''**: '')
           @ drop (nat (insertionOffset (lines starItemDoc ! line (getCursor starItemDoc)))) (lines starItemDoc ! line (getCursor starItemDoc))]"
    and c: "cursor e' = \<lparr>line = line (getCursor starItemDoc), ch = ch (getCursor starItemDoc) + length (''**'' @ ''09:42'' @ ''**: '')\<rparr>"
    and s: "scrolledTo e' = scrolledTo starItemDoc"
    by blast
  from l have l': "lines e' = [''## [[2024-05-11]]'', ''* **09:42**: '', ''* later'']"
    by (simp add: starItemDoc_values)
  from c have c': "cursor e' = \<lparr>line = 1, ch = 13\<rparr>" by (simp add: starItemDoc_values)
  from l' c' s have "e' = starItemDoc\<lparr>lines := [''## [[2024-05-11]]'', ''* **09:42**: '', ''* later''],
                            cursor := \<lparr>line = 1, ch = 13\<rparr>\<rparr>"
    by (cases e') (simp add: starItemDoc_def)
  with r P' f(1,2) show ?thesis by simp
qed

section \<open>The list-mode block\<close>

lemma indexOfFrom_bounds: "indexOfFrom s p i = - 1 \<or> i \<le> indexOfFrom s p i"
  by (induction s arbitrary: i) (auto, force)

lemma indexOf_zero_iff: "indexOf s p = 0 \<longleftrightarrow> startsWith s p"
proof (cases s)
  case Nil
  then show ?thesis by (auto simp: indexOf_def startsWith_def)
next
  case (Cons c cs)
  from indexOfFrom_bounds[of cs p 1] have "indexOfFrom cs p 1 \<noteq> 0" by auto
  with Cons show ?thesis by (simp add: indexOf_def)
qed

lemma listModeBlocks_iff:
  "listModeBlocks P text \<longleftrightarrow>
     useList (settings P)
     \<and> (startsWith text ''**'' \<or> startsWith text [CHR 0x09] \<or> \<not> startsWith (trim text) ''*'')"
  by (simp add: listModeBlocks_def Let_def indexOf_zero_iff)

lemma hyphen_not_star: "startsWith s ''-'' \<Longrightarrow> \<not> startsWith s ''*''"
  by (cases s) (auto simp: startsWith_def)

lemma listPlugin_facts:
  "useList (settings listPlugin)"
  "isWithinInterval listPlugin 0"
  "startsWith (trim ''- item'') ''-''"
  "\<not> startsWith ''- item'' [CHR 0x09]"
  "\<not> startsWith ''- item'' ''**''"
  "\<not> isLoggedLine (momentAt 9 42) listPlugin ''- item''"
  "scanAbove (momentAt 9 42) listPlugin notesDoc 2 = Some True"
  by code_simp+

lemma spacedItemDoc_facts:
  "getLine spacedItemDoc (line (getCursor spacedItemDoc)) = Some ''  * item''"
  "isWhiteSpace (hd ''  * item'')"
  "startsWith (trim ''  * item'') ''*''"
  "\<not> startsWith ''  * item'' [CHR 0x09]"
  "\<not> startsWith ''  * item'' ''**''"
  "\<not> isLoggedLine (momentAt 9 42) listPlugin ''  * item''"
  "scanAbove (momentAt 9 42) listPlugin spacedItemDoc (line (getCursor spacedItemDoc)) = Some True"
  by code_simp+

text \<open>
  C3 as stated fails twice. With \<open>useList\<close> on, the hyphen item \<open>- item\<close> is not let
  through: \<open>hasList\<close> asks for \<open>*\<close> only, and the detector answers false under a dated
  header where the scan alone answers true. And the item \<open>  * item\<close>, indented by two
  spaces, is let through: \<open>isNested\<close> asks for a leading tab only.
\<close>

theorem list_mode_hyphen_and_spaces:
  "useList (settings listPlugin)
   \<and> startsWith (trim ''- item'') ''-''
   \<and> \<not> startsWith ''- item'' [CHR 0x09]
   \<and> \<not> startsWith ''- item'' ''**''
   \<and> \<not> isLoggedLine (momentAt 9 42) listPlugin ''- item''
   \<and> scanAbove (momentAt 9 42) listPlugin notesDoc 2 = Some True
   \<and> listModeBlocks listPlugin ''- item''
   \<and> shouldInsertLine (momentAt 9 42) listPlugin 0 notesDoc = Some False
   \<and> isWhiteSpace (hd ''  * item'')
   \<and> \<not> listModeBlocks listPlugin ''  * item''
   \<and> shouldInsertLine (momentAt 9 42) listPlugin 0 spacedItemDoc = Some True"
  by code_simp

text \<open>
  C3, amended. With \<open>useList\<close> on, the block returns false exactly when the trimmed line
  does not start with \<open>*\<close>, or the line starts with a tab, or the line starts with \<open>**\<close>;
  with \<open>useList\<close> off it never does. A blocked call answers false; a call let through
  (and not stopped before) answers by the upward scan. A line whose trimmed content
  starts with a hyphen is blocked.
\<close>

theorem list_mode_gate:
  "(listModeBlocks P text \<longleftrightarrow>
      useList (settings P)
      \<and> (\<not> startsWith (trim text) ''*'' \<or> startsWith text [CHR 0x09] \<or> startsWith text ''**''))
   \<and> (isWithinInterval P now \<and> getLine e (line (getCursor e)) = Some text
        \<and> listModeBlocks P text \<longrightarrow> shouldInsertLine M P now e = Some False)
   \<and> (isWithinInterval P now \<and> getLine e (line (getCursor e)) = Some text
        \<and> \<not> isLoggedLine M P text \<and> \<not> listModeBlocks P text
        \<longrightarrow> shouldInsertLine M P now e = scanAbove M P e (line (getCursor e)))
   \<and> (useList (settings P) \<and> startsWith (trim text) ''-'' \<longrightarrow> listModeBlocks P text)"
proof -
  have a: "shouldInsertLine M P now e = Some False"
    if "isWithinInterval P now" "getLine e (line (getCursor e)) = Some text"
      "listModeBlocks P text"
    using that by (simp add: shouldInsertLine_def Let_def)
  have b: "shouldInsertLine M P now e = scanAbove M P e (line (getCursor e))"
    if "isWithinInterval P now" "getLine e (line (getCursor e)) = Some text"
      "\<not> isLoggedLine M P text" "\<not> listModeBlocks P text"
    using that by (rule shouldInsertLine_scan)
  have c: "listModeBlocks P text" if "useList (settings P)" "startsWith (trim text) ''-''"
    using that hyphen_not_star[of "trim text"] by (simp add: listModeBlocks_iff)
  from a b c listModeBlocks_iff[of P "text"] show ?thesis by blast
qed

text \<open>The hyphen item is blocked; the star item behind two spaces is let through.\<close>

theorem list_mode_gate_witness:
  "useList (settings listPlugin)
   \<and> isWithinInterval listPlugin 0
   \<and> getLine notesDoc (line (getCursor notesDoc)) = Some ''- item''
   \<and> startsWith (trim ''- item'') ''-''
   \<and> listModeBlocks listPlugin ''- item''
   \<and> shouldInsertLine (momentAt 9 42) listPlugin 0 notesDoc = Some False
   \<and> getLine spacedItemDoc (line (getCursor spacedItemDoc)) = Some ''  * item''
   \<and> \<not> isLoggedLine (momentAt 9 42) listPlugin ''  * item''
   \<and> \<not> listModeBlocks listPlugin ''  * item''
   \<and> shouldInsertLine (momentAt 9 42) listPlugin 0 spacedItemDoc = Some True"
proof -
  note f = listPlugin_facts
  note g = spacedItemDoc_facts
  note T1 = list_mode_gate[of listPlugin "''- item''" 0 notesDoc "momentAt 9 42"]
  note T2 = list_mode_gate[of listPlugin "''  * item''" 0 spacedItemDoc "momentAt 9 42"]
  from T1 f(1,3) have blk: "listModeBlocks listPlugin ''- item''" by blast
  with T1 f(2) notesDoc_gates(2)
  have no: "shouldInsertLine (momentAt 9 42) listPlugin 0 notesDoc = Some False" by blast
  from T2 f(1) g(3,4,5) have pass: "\<not> listModeBlocks listPlugin ''  * item''" by blast
  with T2 f(2) g(1,6)
  have "shouldInsertLine (momentAt 9 42) listPlugin 0 spacedItemDoc
        = scanAbove (momentAt 9 42) listPlugin spacedItemDoc (line (getCursor spacedItemDoc))"
    by blast
  with g(7) have yes: "shouldInsertLine (momentAt 9 42) listPlugin 0 spacedItemDoc = Some True"
    by simp
  from f(1,2,3) notesDoc_gates(2) blk no g(1,6) pass yes show ?thesis by blast
qed

section \<open>Logged lines\<close>

lemma stripLeading_run:
  assumes "length (takeWhile isListRemnant text) \<le> 1"
  shows "stripLeading text = dropWhile isListRemnant text"
proof (cases "text")
  case Nil
  then show ?thesis by (simp add: stripLeading_def)
next
  case (Cons c cs)
  show ?thesis
  proof (cases "isListRemnant c")
    case True
    with assms Cons have "takeWhile isListRemnant cs = []" by simp
    then have "dropWhile isListRemnant cs = cs"
      by (metis append_Nil takeWhile_dropWhile_id)
    with True Cons show ?thesis by (simp add: stripLeading_def isListRemnant_def)
  next
    case False
    with Cons show ?thesis by (simp add: stripLeading_def isListRemnant_def)
  qed
qed

lemma star_item_facts:
  "length (takeWhile isListRemnant ''* **09:42**: done'') \<le> 1"
  "specLoggedPrefix (logFormat (settings freshPlugin)) ''* **09:42**: done'' = '' 09:4''"
  "isValid (momentAt 9 42) '' 09:4'' (logFormat (settings freshPlugin))"
  "length (takeWhile isListRemnant ''plain bullet'') \<le> 1"
  "specLoggedPrefix (logFormat (settings freshPlugin)) ''plain bullet'' = ''plain''"
  "\<not> isValid (momentAt 9 42) ''plain'' (logFormat (settings freshPlugin))"
  by code_simp+

text \<open>
  C4 as stated fails. The source calls \<open>moment(l, logFormat)\<close> without the strict flag:
  the line \<open>9:30 standup\<close> counts as logged although its prefix \<open>9:30 \<close> does not match
  \<open>HH:mm\<close> exactly. And \<open>/^[-\s]/g\<close> removes one character, not a run: the nested
  entry \<open>    - **09:42**: Retried\<close> does not count as logged although the
  specification's prefix of it is \<open>09:42\<close>.
\<close>

theorem logged_line_not_strict:
  "isLoggedLine (momentAt 9 42) freshPlugin ''9:30 standup''
   \<and> specLoggedPrefix (logFormat (settings freshPlugin)) ''9:30 standup'' = ''9:30 ''
   \<and> \<not> strictHHmm ''9:30 ''
   \<and> \<not> isLoggedLine (momentAt 9 42) freshPlugin ''    - **09:42**: Retried''
   \<and> specLoggedPrefix (logFormat (settings freshPlugin)) ''    - **09:42**: Retried'' = ''09:42''
   \<and> strictHHmm ''09:42''"
  by code_simp

text \<open>
  C4, amended. For a line that begins with at most one hyphen or white-space character,
  \<open>isLoggedLine\<close> is the forgiving validity of the specification's prefix: the line
  without that character and without any \<open>*\<close>, cut to the length of the pattern.
\<close>

theorem logged_line_forgiving:
  "length (takeWhile isListRemnant text) \<le> 1 \<longrightarrow>
     isLoggedLine M P text
       = isValid M (specLoggedPrefix (logFormat (settings P)) text) (logFormat (settings P))"
  by (simp add: isLoggedLine_def loggedPrefix_def specLoggedPrefix_def stripLeading_run)

text \<open>
  A star item with a timestamp is a logged line, through the prefix \<open> 09:4\<close>; a line of
  plain words is not.
\<close>

theorem logged_line_forgiving_witness:
  "length (takeWhile isListRemnant ''* **09:42**: done'') \<le> 1
   \<and> specLoggedPrefix (logFormat (settings freshPlugin)) ''* **09:42**: done'' = '' 09:4''
   \<and> isLoggedLine (momentAt 9 42) freshPlugin ''* **09:42**: done''
   \<and> length (takeWhile isListRemnant ''plain bullet'') \<le> 1
   \<and> \<not> isLoggedLine (momentAt 9 42) freshPlugin ''plain bullet''"
proof -
  note f = star_item_facts
  from logged_line_forgiving[of "''* **09:42**: done''" "momentAt 9 42" freshPlugin] f(1,2,3)
  have a: "isLoggedLine (momentAt 9 42) freshPlugin ''* **09:42**: done''" by simp
  from logged_line_forgiving[of "''plain bullet''" "momentAt 9 42" freshPlugin] f(4,5,6)
  have b: "\<not> isLoggedLine (momentAt 9 42) freshPlugin ''plain bullet''" by simp
  from a b f show ?thesis by blast
qed

end
